theory Spec2Isabelle
  imports Complex_Main
begin

section \<open>Python values shared by the modules\<close>

text \<open>
  Exceptions of class \<open>Exception\<close> that the modelled code raises itself or receives from
  the libraries it calls. Every \<open>except Exception\<close> handler of the source catches all
  of them. A Python function is modelled with result type \<open>exn + 'a\<close>: \<open>Inl\<close> is a raise
  that reaches the caller.
\<close>

datatype exn =
    ValueError string
  | FileNotFoundError string
  | TypeError
  | AttributeError
  | KeyError string
  | JSONDecodeError
  | LibraryError string

text \<open>
  \<open>xs[lo:hi]\<close> on a list: a negative bound counts from the end, and both bounds are
  clamped to \<open>0 .. len(xs)\<close>; an empty range gives the empty list.
\<close>

definition py_slice :: "'a list \<Rightarrow> int \<Rightarrow> int \<Rightarrow> 'a list" where
  "py_slice xs lo hi =
     (let n = int (length xs);
          lo' = (if lo < 0 then max (lo + n) 0 else min lo n);
          hi' = (if hi < 0 then max (hi + n) 0 else min hi n)
      in take (nat (hi' - lo')) (drop (nat lo') xs))"

text \<open>
  A \<open>char\<close> stands for a code point below 256. \<open>str.strip()\<close> without argument removes
  leading and trailing whitespace; these are the code points below 256 for which
  \<open>str.isspace\<close> holds.
\<close>

definition is_space :: "char \<Rightarrow> bool" where
  "is_space c =
     (let n = (of_char c :: nat)
      in (9 \<le> n \<and> n \<le> 13) \<or> (28 \<le> n \<and> n \<le> 32) \<or> n = 133 \<or> n = 160)"

definition strip :: "string \<Rightarrow> string" where
  "strip s = rev (dropWhile is_space (rev (dropWhile is_space s)))"

text \<open>\<open>str.lower()\<close> on code points below 256.\<close>

definition lower_char :: "char \<Rightarrow> char" where
  "lower_char c =
     (let n = (of_char c :: nat)
      in if (65 \<le> n \<and> n \<le> 90) \<or> (192 \<le> n \<and> n \<le> 222 \<and> n \<noteq> 215)
         then char_of (n + 32) else c)"

definition lower :: "string \<Rightarrow> string" where
  "lower s = map lower_char s"

text \<open>\<open>str(n)\<close> of an int, as an f-string formats it.\<close>

function str_nat :: "nat \<Rightarrow> string" where
  "str_nat n =
     (if n < 10 then [char_of (48 + n)] else str_nat (n div 10) @ [char_of (48 + n mod 10)])"
  by pat_completeness auto
termination
  by (relation "measure (\<lambda>n. n)") auto

definition str_int :: "int \<Rightarrow> string" where
  "str_int i = (if i < 0 then CHR ''-'' # str_nat (nat (- i)) else str_nat (nat i))"

definition dq :: string where
  "dq = [CHR 0x22]"

definition nl :: string where
  "nl = [CHR 0x0A]"

text \<open>\<open>sep.join(parts)\<close>.\<close>

fun join :: "string \<Rightarrow> string list \<Rightarrow> string" where
  "join sep [] = []"
| "join sep [p] = p"
| "join sep (p # q # ps) = p @ sep @ join sep (q # ps)"

section \<open>ingest.py: text extraction\<close>

text \<open>
  PyPDF2, python-pptx and the file system are libraries. A PDF is what \<open>PdfReader(path)\<close>
  gives: an exception, or pages whose \<open>extract_text()\<close> returns a string, returns \<open>None\<close>
  or raises. A presentation is a list of slides, a slide the list of its shapes, a shape
  its \<open>text\<close> attribute when it has one.
\<close>

datatype pdf_page = PageText string | PageNone | PageRaises exn

type_synonym slide = "string option list"

type_synonym part = "string \<times> int option"

record file_env =
  pdf_reader :: "string \<Rightarrow> exn + pdf_page list"
  presentation :: "string \<Rightarrow> exn + slide list"
  read_text :: "string \<Rightarrow> exn + string"

text \<open>\<open>try: text = page.extract_text() or ""; except Exception: text = ""\<close>\<close>

fun page_text :: "pdf_page \<Rightarrow> string" where
  "page_text (PageText t) = t"
| "page_text PageNone = []"
| "page_text (PageRaises e) = []"

definition extract_text_from_pdf :: "file_env \<Rightarrow> string \<Rightarrow> exn + part list" where
  "extract_text_from_pdf env path =
     (case pdf_reader env path of
        Inl e \<Rightarrow> Inl e
      | Inr pages \<Rightarrow>
          Inr (map (\<lambda>(i, page). (page_text page, Some (int i + 1))) (enumerate 0 pages)))"

definition extract_text_from_pptx :: "file_env \<Rightarrow> string \<Rightarrow> exn + part list" where
  "extract_text_from_pptx env path =
     (case presentation env path of
        Inl e \<Rightarrow> Inl e
      | Inr slides \<Rightarrow>
          Inr (map (\<lambda>(i, shapes). (join nl (List.map_filter (\<lambda>t. t) shapes), Some (int i + 1)))
                 (enumerate 0 slides)))"

definition extract_text_from_txt_or_md :: "file_env \<Rightarrow> string \<Rightarrow> exn + part list" where
  "extract_text_from_txt_or_md env path =
     (case read_text env path of
        Inl e \<Rightarrow> Inl e
      | Inr content \<Rightarrow> Inr [(content, None)])"

section \<open>ingest.py: token-aware chunking\<close>

text \<open>
  The tokenizer (tiktoken's \<open>cl100k_base\<close>) is a library: \<open>encode\<close> and \<open>decode\<close> are
  parameters. \<open>enc.encode\<close> raises \<open>ValueError\<close> on a text that holds a special token,
  so it returns a sum; \<open>enc.decode\<close> replaces what it cannot decode and does not raise.

  The \<open>while\<close> loop of \<open>chunk_text_tokenwise\<close>. \<open>max_tokens\<close> and \<open>overlap\<close> are Python
  ints of either sign, so the index \<open>i\<close> is an \<open>int\<close> and the slice is Python's.
  The loop may run forever: \<open>None\<close> is "does not return".
\<close>

partial_function (option) chunk_loop ::
  "('tok list \<Rightarrow> 'txt) \<Rightarrow> 'tok list \<Rightarrow> int \<Rightarrow> int \<Rightarrow> int \<Rightarrow> 'txt list \<Rightarrow> 'txt list option"
where
  "chunk_loop decode tokens max_tokens step i chunks =
     (if i < int (length tokens)
      then chunk_loop decode tokens max_tokens step (i + step)
             (chunks @ [decode (py_slice tokens i (i + max_tokens))])
      else Some chunks)"

declare chunk_loop.simps [code]

definition chunk_text_tokenwise ::
  "(string \<Rightarrow> exn + 'tok list) \<Rightarrow> ('tok list \<Rightarrow> 'txt) \<Rightarrow> string \<Rightarrow> int \<Rightarrow> int
     \<Rightarrow> (exn + 'txt list) option"
where
  "chunk_text_tokenwise encode decode text max_tokens overlap =
     (case encode text of
        Inl e \<Rightarrow> Some (Inl e)
      | Inr tokens \<Rightarrow>
          if tokens = [] then Some (Inr [])
          else map_option Inr
                 (chunk_loop decode tokens max_tokens (max_tokens - overlap) 0 []))"

text \<open>
  The last \<open>k\<close> and the first \<open>k\<close> tokens of a window, to state what two consecutive
  windows share.
\<close>

definition trailing :: "nat \<Rightarrow> 'a list \<Rightarrow> 'a list" where
  "trailing k w = drop (length w - k) w"

definition leading :: "nat \<Rightarrow> 'a list \<Rightarrow> 'a list" where
  "leading k w = take k w"

text \<open>
  The start offsets the loop visits from \<open>i\<close> when the step is positive; used in the
  proofs only.
\<close>

function win_starts :: "int \<Rightarrow> int \<Rightarrow> int \<Rightarrow> int list" where
  "win_starts n step i = (if 0 < step \<and> i < n then i # win_starts n step (i + step) else [])"
  by pat_completeness auto
termination
  by (relation "measure (\<lambda>(n, step, i). nat (n - i))") auto

declare win_starts.simps [simp del]

text \<open>
  A tokenizer for concrete inputs: one token per character, decoding is the identity.
\<close>

definition char_tokens :: "string \<Rightarrow> exn + char list" where
  "char_tokens s = Inr s"

definition char_untokens :: "char list \<Rightarrow> string" where
  "char_untokens w = w"

definition token_window :: "'tok list \<Rightarrow> 'tok list" where
  "token_window w = w"

section \<open>ingest.py: indexing one file\<close>

text \<open>
  \<open>pathlib\<close> is a library: a path is what \<open>Path(path)\<close> reports of it.
\<close>

record path_view =
  path_str :: string
  path_name :: string
  path_suffix :: string

record metadata =
  course_id :: string
  lecture_id :: "string option"
  source :: string
  page_or_slide :: "int option"
  chunk_index :: nat

text \<open>
  The three lists \<open>all_chunks\<close>, \<open>all_metadatas\<close>, \<open>all_ids\<close>. \<open>uuid.uuid4()\<close> is a
  supply: \<open>uuid4 k\<close> is the value of the \<open>k\<close>-th draw of this call. Every chunk draws
  once and appends the value to \<open>all_ids\<close>, so the next draw is number
  \<open>length all_ids\<close>.
\<close>

type_synonym 'txt gathered = "'txt list \<times> metadata list \<times> string list"

text \<open>The inner loop \<open>for i, chunk in enumerate(chunks)\<close>.\<close>

fun add_chunks ::
  "(nat \<Rightarrow> string) \<Rightarrow> string \<Rightarrow> string option \<Rightarrow> string \<Rightarrow> int option
     \<Rightarrow> (nat \<times> 'txt) list \<Rightarrow> 'txt gathered \<Rightarrow> 'txt gathered"
where
  "add_chunks uuid4 cid lid name page_idx [] acc = acc"
| "add_chunks uuid4 cid lid name page_idx ((i, chunk) # rest) (all_chunks, all_metadatas, all_ids) =
     add_chunks uuid4 cid lid name page_idx rest
       (all_chunks @ [chunk],
        all_metadatas @
          [\<lparr>course_id = cid, lecture_id = lid, source = name,
            page_or_slide = page_idx, chunk_index = i\<rparr>],
        all_ids @ [uuid4 (length all_ids)])"

text \<open>The outer loop \<open>for (text, page_idx) in parts\<close>.\<close>

fun gather_parts ::
  "(string \<Rightarrow> exn + 'tok list) \<Rightarrow> ('tok list \<Rightarrow> 'txt) \<Rightarrow> (nat \<Rightarrow> string)
     \<Rightarrow> string \<Rightarrow> string option \<Rightarrow> string \<Rightarrow> int \<Rightarrow> int
     \<Rightarrow> part list \<Rightarrow> 'txt gathered \<Rightarrow> (exn + 'txt gathered) option"
where
  "gather_parts encode decode uuid4 cid lid name max_tokens overlap [] acc = Some (Inr acc)"
| "gather_parts encode decode uuid4 cid lid name max_tokens overlap ((text, page_idx) # parts) acc =
     (if text = [] \<or> length (strip text) = 0
      then gather_parts encode decode uuid4 cid lid name max_tokens overlap parts acc
      else
        (case chunk_text_tokenwise encode decode text max_tokens overlap of
           None \<Rightarrow> None
         | Some (Inl e) \<Rightarrow> Some (Inl e)
         | Some (Inr chunks) \<Rightarrow>
             gather_parts encode decode uuid4 cid lid name max_tokens overlap parts
               (add_chunks uuid4 cid lid name page_idx (enumerate 0 chunks) acc)))"

text \<open>
  The Chroma collection and the embedder are libraries: \<open>coll_add\<close> is \<open>coll.add\<close>,
  whose \<open>embeddings\<close> argument defaults to \<open>None\<close>, and \<open>embed_many\<close> is
  \<open>embedder.embed_many\<close>.
\<close>

definition insert_chunks_to_collection ::
  "('coll \<Rightarrow> string list \<Rightarrow> 'txt list \<Rightarrow> metadata list \<Rightarrow> 'vec list option \<Rightarrow> exn + 'coll)
     \<Rightarrow> 'coll \<Rightarrow> string list \<Rightarrow> 'txt list \<Rightarrow> metadata list \<Rightarrow> 'vec list option \<Rightarrow> exn + 'coll"
where
  "insert_chunks_to_collection coll_add coll ids documents metadatas embeddings =
     (case embeddings of
        Some e \<Rightarrow> coll_add coll ids documents metadatas (Some e)
      | None \<Rightarrow> coll_add coll ids documents metadatas None)"

text \<open>
  \<open>process_single_file\<close> returns the number of chunks indexed, here together with the
  collection as the call leaves it.
\<close>

definition process_single_file ::
  "file_env \<Rightarrow> (string \<Rightarrow> exn + 'tok list) \<Rightarrow> ('tok list \<Rightarrow> 'txt) \<Rightarrow> (nat \<Rightarrow> string)
     \<Rightarrow> ('txt list \<Rightarrow> exn + 'vec list)
     \<Rightarrow> ('coll \<Rightarrow> string list \<Rightarrow> 'txt list \<Rightarrow> metadata list \<Rightarrow> 'vec list option \<Rightarrow> exn + 'coll)
     \<Rightarrow> path_view \<Rightarrow> string \<Rightarrow> string option \<Rightarrow> 'coll \<Rightarrow> int \<Rightarrow> int
     \<Rightarrow> (exn + nat \<times> 'coll) option"
where
  "process_single_file env encode decode uuid4 embed_many coll_add path cid lid coll
       max_tokens overlap =
     (let suffix = lower (path_suffix path);
          extracted =
            (if suffix = ''.pdf'' then Some (extract_text_from_pdf env (path_str path))
             else if suffix \<in> set [''.pptx''] then Some (extract_text_from_pptx env (path_str path))
             else if suffix \<in> set [''.md'', ''.txt'']
               then Some (extract_text_from_txt_or_md env (path_str path))
             else None)
      in case extracted of
           None \<Rightarrow> Some (Inr (0, coll))
         | Some (Inl e) \<Rightarrow> Some (Inl e)
         | Some (Inr parts) \<Rightarrow>
             (case gather_parts encode decode uuid4 cid lid (path_name path) max_tokens overlap
                     parts ([], [], []) of
                None \<Rightarrow> None
              | Some (Inl e) \<Rightarrow> Some (Inl e)
              | Some (Inr (all_chunks, all_metadatas, all_ids)) \<Rightarrow>
                  if all_chunks = [] then Some (Inr (0, coll))
                  else
                    (case embed_many all_chunks of
                       Inl e \<Rightarrow> Some (Inl e)
                     | Inr embeddings \<Rightarrow>
                         (case insert_chunks_to_collection coll_add coll all_ids all_chunks
                                 all_metadatas (Some embeddings) of
                            Inl e \<Rightarrow> Some (Inl e)
                          | Inr coll' \<Rightarrow> Some (Inr (length all_chunks, coll'))))))"

text \<open>Inputs for concrete runs of \<open>process_single_file\<close>.\<close>

definition sample_path :: path_view where
  "sample_path =
     \<lparr>path_str = ''notes/lecture.PDF'', path_name = ''lecture.PDF'', path_suffix = ''.PDF''\<rparr>"

definition sample_files :: file_env where
  "sample_files =
     \<lparr>pdf_reader = (\<lambda>p. Inr [PageText (replicate 1000 (CHR ''a'')), PageText '' '']),
      presentation = (\<lambda>p. Inl (LibraryError ''not a presentation'')),
      read_text = (\<lambda>p. Inl (LibraryError ''not a text file''))\<rparr>"

definition sample_uuid4 :: "nat \<Rightarrow> string" where
  "sample_uuid4 k = ''uuid-'' @ str_nat k"

definition sample_embed_many :: "string list \<Rightarrow> exn + nat list" where
  "sample_embed_many texts = Inr (map length texts)"

definition sample_coll_add ::
  "string list \<Rightarrow> string list \<Rightarrow> string list \<Rightarrow> metadata list \<Rightarrow> nat list option
     \<Rightarrow> exn + string list"
where
  "sample_coll_add coll ids documents metadatas embeddings = Inr (coll @ ids)"

section \<open>query_rewriter.py\<close>

text \<open>
  The language model is a library object: \<open>llm.complete(prompt)\<close> raises or returns a
  response. The \<open>text\<close> of a response is a string; \<open>None\<close> stands for a response that
  carries no text, on which \<open>.strip()\<close> and \<open>json.loads\<close> raise.
\<close>

record llm_response =
  response_text :: "string option"

type_synonym llm = "string \<Rightarrow> exn + llm_response"

definition rewrite_prompt :: "string \<Rightarrow> string" where
  "rewrite_prompt original_query =
     nl @
       ''        Rewrite the following student question to be more effective for retrieving relevant information from educational materials.'' @
       nl @ ''        Make it more specific, clear, and focused on key concepts.'' @ nl @
       ''        '' @ nl @ ''        Original query: '' @ dq @ original_query @ dq @ nl @
       ''        '' @ nl @ ''        Rewritten query:'' @ nl @ ''        ''"

text \<open>The body of the \<open>try\<close> block, and the function with its handler.\<close>

definition rewrite_try :: "llm \<Rightarrow> string \<Rightarrow> exn + string" where
  "rewrite_try llm prompt =
     (case llm prompt of
        Inl e \<Rightarrow> Inl e
      | Inr response \<Rightarrow>
          (case response_text response of
             None \<Rightarrow> Inl AttributeError
           | Some t \<Rightarrow> Inr (strip t)))"

definition rewrite_query :: "llm \<Rightarrow> string \<Rightarrow> exn + string" where
  "rewrite_query llm original_query =
     (case rewrite_try llm (rewrite_prompt original_query) of
        Inl e \<Rightarrow> Inr original_query
      | Inr rewritten \<Rightarrow> Inr rewritten)"

section \<open>youtube_search.py\<close>

text \<open>
  The YouTube client is a library object: applied to \<open>q\<close> and \<open>n\<close> it is
  \<open>youtube.search().list(q=q, maxResults=n, ...).execute().get('items', [])\<close>, which
  raises or gives the items. A field of an item that is missing is \<open>None\<close>; reading it
  raises \<open>KeyError\<close>.
\<close>

record yt_item =
  item_video_id :: "string option"
  item_title :: "string option"
  item_channel_title :: "string option"
  item_description :: "string option"
  item_thumbnail_url :: "string option"

record video =
  video_id :: string
  title :: string
  channel :: string
  description :: string
  thumbnail :: string
  url :: string

type_synonym yt_client = "string \<Rightarrow> int \<Rightarrow> exn + yt_item list"

record searcher =
  api_key :: string
  youtube :: yt_client

text \<open>
  \<open>YouTubeSearcher.__init__\<close>: \<open>getenv\<close> is \<open>os.getenv\<close>, \<open>build\<close> is
  \<open>googleapiclient.discovery.build('youtube', 'v3', developerKey=...)\<close>.
\<close>

definition YouTubeSearcher_init ::
  "(string \<Rightarrow> string option) \<Rightarrow> (string \<Rightarrow> exn + yt_client) \<Rightarrow> exn + searcher"
where
  "YouTubeSearcher_init getenv build =
     (case getenv ''YOUTUBE_API_KEY'' of
        None \<Rightarrow> Inl (ValueError ''YouTube API key not found in environment variables'')
      | Some key \<Rightarrow>
          if key = [] then Inl (ValueError ''YouTube API key not found in environment variables'')
          else
            (case build key of
               Inl e \<Rightarrow> Inl e
             | Inr client \<Rightarrow> Inr \<lparr>api_key = key, youtube = client\<rparr>))"

definition video_of_item :: "yt_item \<Rightarrow> exn + video" where
  "video_of_item item =
     (case item_video_id item of
        None \<Rightarrow> Inl (KeyError ''videoId'')
      | Some vid \<Rightarrow>
     (case item_title item of
        None \<Rightarrow> Inl (KeyError ''title'')
      | Some t \<Rightarrow>
     (case item_channel_title item of
        None \<Rightarrow> Inl (KeyError ''channelTitle'')
      | Some c \<Rightarrow>
     (case item_description item of
        None \<Rightarrow> Inl (KeyError ''description'')
      | Some d \<Rightarrow>
     (case item_thumbnail_url item of
        None \<Rightarrow> Inl (KeyError ''url'')
      | Some th \<Rightarrow>
          Inr \<lparr>video_id = vid, title = t, channel = c, description = d, thumbnail = th,
               url = ''https://www.youtube.com/watch?v='' @ vid\<rparr>)))))"

fun videos_of_items :: "yt_item list \<Rightarrow> video list \<Rightarrow> exn + video list" where
  "videos_of_items [] videos = Inr videos"
| "videos_of_items (item # items) videos =
     (case video_of_item item of
        Inl e \<Rightarrow> Inl e
      | Inr v \<Rightarrow> videos_of_items items (videos @ [v]))"

text \<open>
  What \<open>search_educational_videos\<close> does to the outside is the request it sends: the
  state is the list of requests \<open>(q, maxResults)\<close> sent so far.
\<close>

type_synonym requests = "(string \<times> int) list"

definition search_try :: "searcher \<Rightarrow> string \<Rightarrow> int \<Rightarrow> exn + video list" where
  "search_try self query max_results =
     (case youtube self (query @ '' tutorial education'') max_results of
        Inl e \<Rightarrow> Inl e
      | Inr items \<Rightarrow> videos_of_items items [])"

definition search_educational_videos ::
  "searcher \<Rightarrow> string \<Rightarrow> int \<Rightarrow> requests \<Rightarrow> (exn + video list) \<times> requests"
where
  "search_educational_videos self query max_results sent =
     ((case search_try self query max_results of
         Inl e \<Rightarrow> Inr []
       | Inr videos \<Rightarrow> Inr videos),
      sent @ [(query @ '' tutorial education'', max_results)])"

section \<open>database.py and quiz_generator.py\<close>

text \<open>
  A value \<open>json.loads\<close> returns. An object is the list of its members; \<open>map_of\<close> looks a
  key up.
\<close>

datatype json =
    JNull
  | JBool bool
  | JInt int
  | JFloat real
  | JString string
  | JArray "json list"
  | JObject "(string \<times> json) list"

text \<open>
  The table \<open>quizzes\<close>: \<open>init_db\<close> creates it when it is missing and nothing deletes from
  it, so \<open>AUTOINCREMENT\<close> numbers the rows from 1. A row keeps \<open>json.dumps(questions)\<close>,
  here the value itself. The column \<open>created_at\<close> is the database clock's and is left
  out; so are failures of the database file.
\<close>

record quiz_row =
  row_id :: nat
  row_topic :: string
  row_questions :: json

type_synonym quiz_db = "quiz_row list"

definition save_quiz :: "string \<Rightarrow> json \<Rightarrow> quiz_db \<Rightarrow> quiz_db" where
  "save_quiz topic questions db =
     db @ [\<lparr>row_id = Suc (length db), row_topic = topic, row_questions = questions\<rparr>]"

text \<open>
  The prompt of \<open>generate_quiz\<close>. The two copies of the module (\<open>backend/\<close> and \<open>src/\<close>)
  differ in its second line only.
\<close>

definition quiz_prompt :: "string \<Rightarrow> string \<Rightarrow> string \<Rightarrow> int \<Rightarrow> string" where
  "quiz_prompt format_line topic context num_questions =
     nl @ ''        Based on the following context about '' @ topic @ '', generate a '' @
       str_int num_questions @ ''-question multiple choice quiz.'' @ nl @
       format_line @ nl @
       ''        {'' @ nl @ ''            '' @ dq @ ''quiz_title'' @ dq @ '': '' @ dq @
       ''Quiz about [topic]'' @ dq @ '','' @ nl @ ''            '' @ dq @ ''questions'' @ dq @
       '': ['' @ nl @ ''                {'' @ nl @ ''                    '' @ dq @
       ''question'' @ dq @ '': '' @ dq @ ''Question text'' @ dq @ '','' @ nl @
       ''                    '' @ dq @ ''options'' @ dq @ '': ['' @ dq @ ''Option 1'' @ dq @
       '', '' @ dq @ ''Option 2'' @ dq @ '', '' @ dq @ ''Option 3'' @ dq @ '', '' @ dq @
       ''Option 4'' @ dq @ ''],'' @ nl @ ''                    '' @ dq @ ''correct_answer'' @
       dq @ '': 0  // Index of the correct option (0-3)'' @ nl @ ''                }'' @ nl @
       ''            ]'' @ nl @ ''        }'' @ nl @ ''        '' @ nl @ ''        Context:'' @
       nl @ ''        '' @ context @ nl @ ''        ''"

definition quiz_prompt_backend :: "string \<Rightarrow> string \<Rightarrow> int \<Rightarrow> string" where
  "quiz_prompt_backend =
     quiz_prompt
       ''        Format your response as a JSON object with the following structure:''"

definition quiz_prompt_src :: "string \<Rightarrow> string \<Rightarrow> int \<Rightarrow> string" where
  "quiz_prompt_src =
     quiz_prompt
       ''        Format your response strictly as a JSON object with the following structure, no extra comments:''"

text \<open>
  The body of the \<open>try\<close> block of \<open>generate_quiz\<close>, and the function with its handler.
  \<open>json_loads\<close> is \<open>json.loads\<close>. The result is the returned value (\<open>None\<close> or the quiz)
  and the table as the call leaves it.
\<close>

definition quiz_try ::
  "llm \<Rightarrow> (string \<Rightarrow> exn + json) \<Rightarrow> string \<Rightarrow> string \<Rightarrow> quiz_db \<Rightarrow> (exn + json) \<times> quiz_db"
where
  "quiz_try llm json_loads prompt topic db =
     (case llm prompt of
        Inl e \<Rightarrow> (Inl e, db)
      | Inr response \<Rightarrow>
          (case response_text response of
             None \<Rightarrow> (Inl TypeError, db)
           | Some t \<Rightarrow>
               (case json_loads t of
                  Inl e \<Rightarrow> (Inl e, db)
                | Inr quiz_data \<Rightarrow> (Inr quiz_data, save_quiz topic quiz_data db))))"

definition generate_quiz ::
  "llm \<Rightarrow> (string \<Rightarrow> exn + json) \<Rightarrow> (string \<Rightarrow> string \<Rightarrow> int \<Rightarrow> string)
     \<Rightarrow> string \<Rightarrow> string \<Rightarrow> int \<Rightarrow> quiz_db \<Rightarrow> (exn + json option) \<times> quiz_db"
where
  "generate_quiz llm json_loads prompt_of topic context num_questions db =
     (case quiz_try llm json_loads (prompt_of topic context num_questions) topic db of
        (Inl e, db') \<Rightarrow> (Inr None, db')
      | (Inr quiz_data, db') \<Rightarrow> (Inr (Some quiz_data), db'))"

text \<open>
  The validation the specification asks for, in its words: a title, a non-empty list of
  questions, four options each and a correct-answer index from 0 to 3.
\<close>

definition valid_question :: "json \<Rightarrow> bool" where
  "valid_question q =
     (case q of
        JObject members \<Rightarrow>
          (case (map_of members ''options'', map_of members ''correct_answer'') of
             (Some (JArray options), Some (JInt c)) \<Rightarrow> length options = 4 \<and> 0 \<le> c \<and> c \<le> 3
           | _ \<Rightarrow> False)
      | _ \<Rightarrow> False)"

definition valid_quiz :: "json \<Rightarrow> bool" where
  "valid_quiz quiz =
     (case quiz of
        JObject members \<Rightarrow>
          (case (map_of members ''quiz_title'', map_of members ''questions'') of
             (Some t, Some (JArray questions)) \<Rightarrow>
               questions \<noteq> [] \<and> list_all valid_question questions
           | _ \<Rightarrow> False)
      | _ \<Rightarrow> False)"

text \<open>A model response whose only question names answer 5 of four options.\<close>

definition out_of_range_quiz :: json where
  "out_of_range_quiz =
     JObject
       [(''quiz_title'', JString ''Quiz about loops''),
        (''questions'',
         JArray
           [JObject
              [(''question'', JString ''Which loop tests its condition first?''),
               (''options'', JArray [JString ''while'', JString ''do'', JString ''for'', JString ''if'']),
               (''correct_answer'', JInt 5)]])]"

definition out_of_range_llm :: llm where
  "out_of_range_llm prompt = Inr \<lparr>response_text = Some ''out_of_range_quiz.json''\<rparr>"

text \<open>A well-formed response, and a parser that knows the two response texts.\<close>

definition well_formed_quiz :: json where
  "well_formed_quiz =
     JObject
       [(''quiz_title'', JString ''Quiz about loops''),
        (''questions'',
         JArray
           [JObject
              [(''question'', JString ''Which loop tests its condition first?''),
               (''options'', JArray [JString ''while'', JString ''do'', JString ''for'', JString ''if'']),
               (''correct_answer'', JInt 0)]])]"

definition well_formed_llm :: llm where
  "well_formed_llm prompt = Inr \<lparr>response_text = Some ''well_formed_quiz.json''\<rparr>"

definition sample_json_loads :: "string \<Rightarrow> exn + json" where
  "sample_json_loads t =
     (if t = ''out_of_range_quiz.json'' then Inr out_of_range_quiz
      else if t = ''well_formed_quiz.json'' then Inr well_formed_quiz
      else Inl JSONDecodeError)"

section \<open>query_engine.py\<close>

text \<open>
  A retrieved node carries the similarity the vector store reports, a finite float, read
  as the real number it denotes; for such a float \<open>s\<close> the test \<open>s > 0.7\<close> of the source
  and \<open>s > 7/10\<close> over the reals agree, no float lying between the float \<open>0.7\<close> and
  \<open>7/10\<close>. The response of the retrieval engine is its text (\<open>str(response)\<close>) and
  its source nodes.
\<close>

record node =
  node_text :: string
  score :: real

record response =
  answer :: string
  source_nodes :: "node list"

record query_result =
  result_answer :: string
  result_source_nodes :: "node list"
  videos :: "video list"

text \<open>
  The engine after construction: the model, the searcher, and
  \<open>self.query_engine.query\<close>, a library call that raises or returns a response. The
  quiz generator and the query rewriter hold the same model and nothing else.
\<close>

record engine =
  engine_llm :: llm
  youtube_searcher :: searcher
  query_engine :: "string \<Rightarrow> exn + response"

definition qa_prompt_template :: string where
  "qa_prompt_template =
     ''You are an academic tutor assistant. Your goal is to help students understand course materials.'' @ nl @
     ''Use the following context information from the lecture to answer the query.'' @ nl @
     ''If the answer isn''  @ [CHR 0x27] @ ''t in the context, say so. Explain your reasoning step-by-step.'' @ nl @
     ''Context:'' @ nl @
     ''{context_str}'' @ nl @
     ''Query: {query_str}'' @ nl @
     ''Answer: ''"

text \<open>
  What the constructor reads from outside: the environment, whether the directory of the
  vector store exists, and the library calls that open the index, make the Groq model,
  build the YouTube client and make the retrieval engine (from the index, the number of
  nodes to retrieve and the prompt template).
\<close>

record 'index init_world =
  getenv :: "string \<Rightarrow> string option"
  persist_dir_exists :: bool
  open_index :: "exn + 'index"
  groq :: "string \<Rightarrow> string option \<Rightarrow> exn + llm"
  youtube_build :: "string \<Rightarrow> exn + yt_client"
  as_query_engine :: "'index \<Rightarrow> llm \<Rightarrow> int \<Rightarrow> string \<Rightarrow> exn + (string \<Rightarrow> exn + response)"

definition EnhancedQueryEngine_init :: "'index init_world \<Rightarrow> exn + engine" where
  "EnhancedQueryEngine_init w =
     (if \<not> persist_dir_exists w
      then Inl (FileNotFoundError ''Vector store not found. Please run ingestion first.'')
      else
        (case open_index w of
           Inl e \<Rightarrow> Inl e
         | Inr index \<Rightarrow>
        (case groq w ''llama-3.3-70b-versatile'' (getenv w ''GROQ_API_KEY'') of
           Inl e \<Rightarrow> Inl e
         | Inr model \<Rightarrow>
        (case YouTubeSearcher_init (getenv w) (youtube_build w) of
           Inl e \<Rightarrow> Inl e
         | Inr ys \<Rightarrow>
        (case as_query_engine w index model 5 qa_prompt_template of
           Inl e \<Rightarrow> Inl e
         | Inr qe \<Rightarrow>
             Inr \<lparr>engine_llm = model, youtube_searcher = ys, query_engine = qe\<rparr>)))))"

text \<open>\<open>_is_low_confidence\<close>: the \<open>for\<close> loop over the source nodes, and the method.\<close>

fun no_score_above :: "node list \<Rightarrow> bool" where
  "no_score_above [] = True"
| "no_score_above (n # ns) = (if score n > 0.7 then False else no_score_above ns)"

definition is_low_confidence :: "response \<Rightarrow> bool" where
  "is_low_confidence r =
     (if source_nodes r = [] then True else no_score_above (source_nodes r))"

text \<open>
  \<open>EnhancedQueryEngine.query\<close>, with the requests sent to YouTube as state.
\<close>

definition query ::
  "engine \<Rightarrow> string \<Rightarrow> bool \<Rightarrow> requests \<Rightarrow> (exn + query_result) \<times> requests"
where
  "query self question get_videos sent =
     (case rewrite_query (engine_llm self) question of
        Inl e \<Rightarrow> (Inl e, sent)
      | Inr rewritten_query \<Rightarrow>
          (case query_engine self rewritten_query of
             Inl e \<Rightarrow> (Inl e, sent)
           | Inr r \<Rightarrow>
               (let result = \<lparr>result_answer = answer r,
                              result_source_nodes = source_nodes r,
                              videos = []\<rparr>
                in if get_videos \<or> is_low_confidence r
                   then
                     (case search_educational_videos (youtube_searcher self) question 5 sent of
                        (Inl e, sent') \<Rightarrow> (Inl e, sent')
                      | (Inr found, sent') \<Rightarrow> (Inr (result\<lparr>videos := found\<rparr>), sent'))
                   else (Inr result, sent))))"

text \<open>Models and a constructor environment for concrete runs.\<close>

definition failing_llm :: llm where
  "failing_llm prompt = Inl (LibraryError ''request timed out'')"

definition textless_llm :: llm where
  "textless_llm prompt = Inr \<lparr>response_text = None\<rparr>"

definition rewording_llm :: llm where
  "rewording_llm prompt =
     Inr \<lparr>response_text = Some '' Define polymorphism in object-oriented programming. ''\<rparr>"

definition sample_searcher :: searcher where
  "sample_searcher =
     \<lparr>api_key = ''key'',
      youtube = (\<lambda>q n. Inr [\<lparr>item_video_id = Some ''abc123'', item_title = Some ''OOP basics'',
                              item_channel_title = Some ''CS channel'',
                              item_description = Some ''An introduction'',
                              item_thumbnail_url = Some ''https://i.ytimg.com/abc123.jpg''\<rparr>])\<rparr>"

definition sample_engine :: "real \<Rightarrow> engine" where
  "sample_engine best =
     \<lparr>engine_llm = rewording_llm,
      youtube_searcher = sample_searcher,
      query_engine = (\<lambda>q. Inr \<lparr>answer = ''Polymorphism lets one interface serve many types.'',
                                 source_nodes = [\<lparr>node_text = ''slide 4'', score = best\<rparr>,
                                                 \<lparr>node_text = ''slide 9'', score = 0.3\<rparr>]\<rparr>)\<rparr>"

definition keyless_world :: "unit init_world" where
  "keyless_world =
     \<lparr>getenv = (\<lambda>name. if name = ''GROQ_API_KEY'' then Some ''gsk-1'' else None),
      persist_dir_exists = True,
      open_index = Inr (),
      groq = (\<lambda>name key. Inr rewording_llm),
      youtube_build = (\<lambda>key. Inr (youtube sample_searcher)),
      as_query_engine = (\<lambda>index model k template. Inr (query_engine (sample_engine 0.85)))\<rparr>"

section \<open>The chunking loop\<close>

lemma chunk_loop_runs:
  "0 < step \<Longrightarrow>
   chunk_loop decode tokens m step i chunks =
     Some (chunks @ map (\<lambda>j. decode (py_slice tokens j (j + m)))
                      (win_starts (int (length tokens)) step i))"
proof (induction "int (length tokens)" step i arbitrary: chunks rule: win_starts.induct)
  case (1 step i)
  show ?case
  proof (cases "i < int (length tokens)")
    case True
    with 1 show ?thesis
      by (subst chunk_loop.simps, subst win_starts.simps) simp
  next
    case False
    then show ?thesis
      by (subst chunk_loop.simps, subst win_starts.simps) simp
  qed
qed

text \<open>
  With a step that is not positive the index never leaves \<open>i \<le> 0\<close>, which is below the
  length of a non-empty token list: the loop returns nothing.
\<close>

lemma chunk_loop_stuck:
  assumes "chunk_loop decode tokens m step i chunks = Some y"
  shows "\<not> (step \<le> 0 \<and> i \<le> 0 \<and> tokens \<noteq> [])"
  apply (rule chunk_loop.raw_induct
    [where P = "\<lambda>d ts mx st j cs r. \<not> (st \<le> 0 \<and> j \<le> 0 \<and> ts \<noteq> [])", OF _ assms])
  subgoal premises prems for f d ts mx st j cs r
  proof
    assume h: "st \<le> 0 \<and> j \<le> 0 \<and> ts \<noteq> []"
    then have "j < int (length ts)" by (cases ts) auto
    with prems(2) have "f d ts mx st (j + st) (cs @ [d (py_slice ts j (j + mx))]) = Some r"
      by simp
    from prems(1)[OF this] h show False by auto
  qed
  done

lemma chunk_loop_diverges:
  "step \<le> 0 \<Longrightarrow> tokens \<noteq> [] \<Longrightarrow> chunk_loop decode tokens m step 0 chunks = None"
  using chunk_loop_stuck[of decode tokens m step 0 chunks]
  by (cases "chunk_loop decode tokens m step 0 chunks") auto

lemma win_starts_bounds: "j \<in> set (win_starts n step i) \<Longrightarrow> i \<le> j \<and> j < n"
proof (induction n step i rule: win_starts.induct)
  case (1 n step i)
  from "1.prems" have c: "0 < step \<and> i < n"
    by (subst (asm) win_starts.simps) (auto split: if_splits)
  with "1.prems" have "j = i \<or> j \<in> set (win_starts n step (i + step))"
    by (subst (asm) win_starts.simps) auto
  with c "1.IH" show ?case by fastforce
qed

lemma win_starts_nth:
  "k < length (win_starts n step i) \<Longrightarrow> win_starts n step i ! k = i + int k * step"
proof (induction n step i arbitrary: k rule: win_starts.induct)
  case (1 n step i)
  from "1.prems" have c: "0 < step \<and> i < n"
    by (subst (asm) win_starts.simps) (auto split: if_splits)
  then have unf: "win_starts n step i = i # win_starts n step (i + step)"
    by (subst win_starts.simps) simp
  show ?case
  proof (cases k)
    case 0
    then show ?thesis by (simp add: unf)
  next
    case (Suc k')
    with "1.prems" unf have "k' < length (win_starts n step (i + step))" by simp
    from "1.IH"[OF c this] Suc show ?thesis by (simp add: unf algebra_simps)
  qed
qed

lemma win_starts_single:
  "0 < step \<Longrightarrow> i < n \<Longrightarrow> n \<le> i + step \<Longrightarrow> win_starts n step i = [i]"
  by (subst win_starts.simps, subst win_starts.simps) simp

lemma win_starts_two:
  "0 < step \<Longrightarrow> i + step < n \<Longrightarrow>
   win_starts n step i = i # (i + step) # win_starts n step (i + step + step)"
  by (subst win_starts.simps, subst win_starts.simps) simp

lemma py_slice_window:
  assumes "0 \<le> j" "j < int (length xs)" "0 < m"
  shows "py_slice xs j (j + m) = take (nat m) (drop (nat j) xs)"
proof (cases "j + m \<le> int (length xs)")
  case True
  with assms have "nat (j + m - j) = nat m" by simp
  with True assms show ?thesis by (simp add: py_slice_def Let_def min_def)
next
  case False
  with assms have "length (drop (nat j) xs) \<le> nat m" by simp
  moreover from assms have "length (drop (nat j) xs) \<le> nat (int (length xs) - j)" by simp
  ultimately show ?thesis using False assms by (simp add: py_slice_def Let_def min_def)
qed

lemma chunk_text_tokenwise_runs:
  assumes "encode s = Inr tokens" "tokens \<noteq> []" "overlap < max_tokens"
  shows "chunk_text_tokenwise encode decode s max_tokens overlap =
           Some (Inr (map (\<lambda>j. decode (py_slice tokens j (j + max_tokens)))
                          (win_starts (int (length tokens)) (max_tokens - overlap) 0)))"
  using assms by (simp add: chunk_text_tokenwise_def chunk_loop_runs)

lemma chunk_text_tokenwise_windows:
  assumes "encode s = Inr tokens" "tokens \<noteq> []" "0 \<le> overlap" "overlap < max_tokens"
  shows "chunk_text_tokenwise encode decode s max_tokens overlap =
           Some (Inr (map (\<lambda>j. decode (take (nat max_tokens) (drop (nat j) tokens)))
                          (win_starts (int (length tokens)) (max_tokens - overlap) 0)))"
proof -
  have "map (\<lambda>j. decode (py_slice tokens j (j + max_tokens)))
            (win_starts (int (length tokens)) (max_tokens - overlap) 0) =
        map (\<lambda>j. decode (take (nat max_tokens) (drop (nat j) tokens)))
            (win_starts (int (length tokens)) (max_tokens - overlap) 0)"
  proof (rule map_cong[OF refl])
    fix j assume "j \<in> set (win_starts (int (length tokens)) (max_tokens - overlap) 0)"
    then have "0 \<le> j \<and> j < int (length tokens)" by (rule win_starts_bounds)
    with assms show "decode (py_slice tokens j (j + max_tokens)) =
                     decode (take (nat max_tokens) (drop (nat j) tokens))"
      by (simp add: py_slice_window)
  qed
  with chunk_text_tokenwise_runs[of encode s tokens overlap max_tokens decode] assms
  show ?thesis by simp
qed

lemma window_overlap:
  fixes tokens :: "'a list"
  assumes "ov < m" "j + m \<le> length tokens"
  shows "trailing ov (take m (drop j tokens)) = leading ov (take m (drop (j + (m - ov)) tokens))"
    and "length (leading ov (take m (drop (j + (m - ov)) tokens))) = ov"
proof -
  from assms have len: "length (take m (drop j tokens)) = m" by simp
  have "trailing ov (take m (drop j tokens)) = drop (m - ov) (take m (drop j tokens))"
    by (simp only: trailing_def len)
  also have "\<dots> = take ov (drop (j + (m - ov)) tokens)"
    using assms by (simp add: drop_take add.commute)
  also have "\<dots> = leading ov (take m (drop (j + (m - ov)) tokens))"
    using assms by (simp add: leading_def min_def)
  finally show "trailing ov (take m (drop j tokens)) =
                leading ov (take m (drop (j + (m - ov)) tokens))" .
  from assms show "length (leading ov (take m (drop (j + (m - ov)) tokens))) = ov"
    unfolding leading_def by simp
qed

lemma windows_props:
  fixes tokens :: "'a list"
  assumes ov: "0 \<le> overlap" "overlap < max_tokens"
  defines "starts \<equiv> win_starts (int (length tokens)) (max_tokens - overlap) 0"
  defines "ws \<equiv> map (\<lambda>j. take (nat max_tokens) (drop (nat j) tokens)) starts"
  shows "\<forall>w\<in>set ws. length w \<le> nat max_tokens"
    and "\<forall>k. Suc k < length ws \<longrightarrow> length (ws ! k) = nat max_tokens \<longrightarrow>
           trailing (nat overlap) (ws ! k) = leading (nat overlap) (ws ! Suc k) \<and>
           length (leading (nat overlap) (ws ! Suc k)) = nat overlap"
    and "2 * overlap \<le> max_tokens \<longrightarrow>
           (\<forall>k. Suc (Suc k) < length ws \<longrightarrow> length (ws ! k) = nat max_tokens)"
proof -
  let ?m = "nat max_tokens" and ?o = "nat overlap" and ?s = "max_tokens - overlap"
  have nth: "\<And>k. k < length ws \<Longrightarrow> starts ! k = int k * ?s"
    using win_starts_nth[of _ "int (length tokens)" ?s 0] by (simp add: ws_def starts_def)
  have bnd: "\<And>k. k < length ws \<Longrightarrow> int k * ?s < int (length tokens)"
  proof -
    fix k assume k: "k < length ws"
    then have "starts ! k \<in> set starts" by (simp add: ws_def)
    then have "starts ! k < int (length tokens)"
      unfolding starts_def by (blast dest: win_starts_bounds)
    with nth[OF k] show "int k * ?s < int (length tokens)" by simp
  qed
  have wk: "\<And>k. k < length ws \<Longrightarrow> ws ! k = take ?m (drop (k * nat ?s) tokens)"
  proof -
    fix k assume k: "k < length ws"
    have "nat (int k * ?s) = k * nat ?s" using ov by (simp add: nat_mult_distrib)
    with k nth[OF k] show "ws ! k = take ?m (drop (k * nat ?s) tokens)"
      by (simp add: ws_def)
  qed
  have s_eq: "nat ?s = ?m - ?o" using ov by (simp add: nat_diff_distrib)
  have o_lt: "?o < ?m" using ov by simp
  show "\<forall>w\<in>set ws. length w \<le> nat max_tokens" by (auto simp: ws_def)
  show "\<forall>k. Suc k < length ws \<longrightarrow> length (ws ! k) = nat max_tokens \<longrightarrow>
           trailing (nat overlap) (ws ! k) = leading (nat overlap) (ws ! Suc k) \<and>
           length (leading (nat overlap) (ws ! Suc k)) = nat overlap"
  proof (intro allI impI)
    fix k assume k: "Suc k < length ws" and full: "length (ws ! k) = nat max_tokens"
    from k have k': "k < length ws" by simp
    from full wk[OF k'] have fit: "k * nat ?s + ?m \<le> length tokens"
      using o_lt by (simp add: min_def split: if_splits)
    have next_w: "ws ! Suc k = take ?m (drop (k * nat ?s + (?m - ?o)) tokens)"
      using wk[OF k] s_eq by (simp add: add.commute)
    from window_overlap[OF o_lt fit] wk[OF k'] next_w
    show "trailing ?o (ws ! k) = leading ?o (ws ! Suc k) \<and>
          length (leading ?o (ws ! Suc k)) = ?o" by simp
  qed
  show "2 * overlap \<le> max_tokens \<longrightarrow>
           (\<forall>k. Suc (Suc k) < length ws \<longrightarrow> length (ws ! k) = nat max_tokens)"
  proof (intro allI impI)
    fix k assume half: "2 * overlap \<le> max_tokens" and k: "Suc (Suc k) < length ws"
    from k have k': "k < length ws" by simp
    define p where "p = int k * ?s"
    from bnd[OF k] have "p + 2 * ?s < int (length tokens)"
      by (simp add: algebra_simps p_def)
    with half have "p + max_tokens < int (length tokens)" by (simp add: algebra_simps)
    moreover have "int (k * nat ?s) = p" using ov by (simp add: p_def)
    ultimately have "k * nat ?s + ?m < length tokens" using ov by linarith
    with wk[OF k'] show "length (ws ! k) = nat max_tokens" by simp
  qed
qed

section \<open>Evaluation lemmas for the concrete runs\<close>

lemma strip_empty_iff: "length (strip s) = 0 \<longleftrightarrow> (\<forall>c\<in>set s. is_space c)"
proof -
  have "dropWhile is_space (rev (dropWhile is_space s)) = [] \<longleftrightarrow>
        (\<forall>c\<in>set (dropWhile is_space s). is_space c)"
    by (simp add: dropWhile_eq_Nil_conv)
  also have "\<dots> \<longleftrightarrow> dropWhile is_space s = []"
  proof
    assume a: "\<forall>c\<in>set (dropWhile is_space s). is_space c"
    show "dropWhile is_space s = []"
    proof (rule ccontr)
      assume ne: "dropWhile is_space s \<noteq> []"
      then have "\<not> is_space (hd (dropWhile is_space s))" by (rule hd_dropWhile)
      moreover from ne have "hd (dropWhile is_space s) \<in> set (dropWhile is_space s)" by simp
      ultimately show False using a by blast
    qed
  qed (auto dest: set_dropWhileD)
  also have "\<dots> \<longleftrightarrow> (\<forall>c\<in>set s. is_space c)"
    by (simp add: dropWhile_eq_Nil_conv)
  finally show ?thesis by (simp add: strip_def)
qed

lemma win_starts_1000: "win_starts 1000 400 0 = [0, 400, 800]"
  by (simp add: win_starts.simps)

lemma lower_PDF: "lower ''.PDF'' = ''.pdf''"
  by code_simp

lemma space_is_space: "is_space CHR '' ''" and a_not_space: "\<not> is_space CHR ''a''"
  by code_simp+

lemma sample_ids:
  "sample_uuid4 0 = ''uuid-0''" "sample_uuid4 (Suc 0) = ''uuid-1''" "sample_uuid4 2 = ''uuid-2''"
  by code_simp+

lemma no_score_above_iff: "no_score_above ns \<longleftrightarrow> (\<forall>n\<in>set ns. score n \<le> 0.7)"
  by (induction ns) (auto simp: not_less)

lemma strip_rewording:
  "strip '' Define polymorphism in object-oriented programming. '' =
     ''Define polymorphism in object-oriented programming.''"
  by code_simp

section \<open>Claims about the chunker\<close>

text \<open>
  Claim C1. The claim: a call with \<open>overlap \<ge> max_tokens\<close> is rejected as a configuration
  error before the text is tokenized. The code validates nothing: the text is encoded
  first, and when it has at least one token the loop runs with a step that is zero or
  negative, appends a chunk in every round and never returns (an interpreter stops it
  only when memory runs out). No configuration error is ever produced.
\<close>

theorem overlap_not_below_max_tokens_never_returns:
  assumes "encode s = Inr tokens" and "tokens \<noteq> []" and "max_tokens \<le> overlap"
  shows "chunk_text_tokenwise encode decode s max_tokens overlap = None"
  using assms by (simp add: chunk_text_tokenwise_def chunk_loop_diverges)

theorem overlap_not_below_max_tokens_never_returns_witness:
  "chunk_text_tokenwise char_tokens char_untokens ''hello'' 100 100 = None"
  using overlap_not_below_max_tokens_never_returns
          [of char_tokens "''hello''" "''hello''" 100 100 char_untokens]
  by (simp add: char_tokens_def)

text \<open>
  Claim C3, in the form that holds of the code. A text with no tokens (as the empty
  string under tiktoken) gives zero chunks. A text with at least one token gives exactly one chunk when it has at most
  \<open>max_tokens - overlap\<close> tokens, the chunk being the decoding of all its tokens; a
  text with more than \<open>max_tokens - overlap\<close> tokens gives at least two chunks, also
  when it is shorter than \<open>max_tokens\<close>, because the loop starts a window at every
  multiple of the step below the token count.
\<close>

theorem chunk_count_small_texts:
  assumes "0 \<le> overlap" and "overlap < max_tokens"
  shows "(encode s = Inr [] \<longrightarrow>
            chunk_text_tokenwise encode decode s max_tokens overlap = Some (Inr []))
       \<and> (\<forall>tokens. encode s = Inr tokens \<and> tokens \<noteq> []
              \<and> int (length tokens) \<le> max_tokens - overlap \<longrightarrow>
            chunk_text_tokenwise encode decode s max_tokens overlap =
              Some (Inr [decode tokens]))
       \<and> (\<forall>tokens. encode s = Inr tokens \<and> max_tokens - overlap < int (length tokens) \<longrightarrow>
            (\<exists>chunks. chunk_text_tokenwise encode decode s max_tokens overlap =
                        Some (Inr chunks) \<and> 2 \<le> length chunks))"
proof (intro conjI allI impI)
  assume "encode s = Inr []"
  then show "chunk_text_tokenwise encode decode s max_tokens overlap = Some (Inr [])"
    by (simp add: chunk_text_tokenwise_def)
next
  fix tokens :: "'a list"
  assume h: "encode s = Inr tokens \<and> tokens \<noteq> [] \<and> int (length tokens) \<le> max_tokens - overlap"
  then have pos: "0 < int (length tokens)" by (cases tokens) auto
  have "win_starts (int (length tokens)) (max_tokens - overlap) 0 = [0]"
  proof (rule win_starts_single)
    show "0 < max_tokens - overlap" using assms by simp
    show "0 < int (length tokens)" by (rule pos)
    show "int (length tokens) \<le> 0 + (max_tokens - overlap)" using h by simp
  qed
  moreover from h assms have "length tokens \<le> nat max_tokens" by linarith
  then have "take (nat max_tokens) tokens = tokens" by simp
  ultimately show "chunk_text_tokenwise encode decode s max_tokens overlap =
                   Some (Inr [decode tokens])"
    using chunk_text_tokenwise_windows[of encode s tokens overlap max_tokens decode] h assms
    by simp
next
  fix tokens :: "'a list"
  assume h: "encode s = Inr tokens \<and> max_tokens - overlap < int (length tokens)"
  with assms have ne: "tokens \<noteq> []" by auto
  from h assms have "win_starts (int (length tokens)) (max_tokens - overlap) 0 =
      0 # (max_tokens - overlap) #
        win_starts (int (length tokens)) (max_tokens - overlap)
          (max_tokens - overlap + (max_tokens - overlap))"
    using win_starts_two[of "max_tokens - overlap" 0 "int (length tokens)"] by simp
  then have "2 \<le> length (win_starts (int (length tokens)) (max_tokens - overlap) 0)"
    by simp
  then show "\<exists>chunks. chunk_text_tokenwise encode decode s max_tokens overlap =
                        Some (Inr chunks) \<and> 2 \<le> length chunks"
    using chunk_text_tokenwise_windows[of encode s tokens overlap max_tokens decode] h assms ne
    by simp
qed

theorem chunk_count_small_texts_witness:
  "chunk_text_tokenwise char_tokens char_untokens [] 500 100 = Some (Inr [])
   \<and> chunk_text_tokenwise char_tokens char_untokens ''abc'' 500 100 = Some (Inr [''abc''])
   \<and> (\<exists>chunks. chunk_text_tokenwise char_tokens char_untokens ''abc'' 3 1 = Some (Inr chunks)
         \<and> 2 \<le> length chunks)"
proof -
  have a: "(0::int) \<le> 100" "(100::int) < 500" "(0::int) \<le> 1" "(1::int) < 3" by simp_all
  show ?thesis
    using chunk_count_small_texts[OF a(1) a(2), of char_tokens "[]" char_untokens]
          chunk_count_small_texts[OF a(1) a(2), of char_tokens "''abc''" char_untokens]
          chunk_count_small_texts[OF a(3) a(4), of char_tokens "''abc''" char_untokens]
    by (simp add: char_tokens_def char_untokens_def)
qed

text \<open>
  Claim C3 as stated fails: two tokens are fewer than \<open>max_tokens = 3\<close>, and with
  \<open>overlap = 2\<close> the call returns two chunks.
\<close>

theorem shorter_than_max_tokens_two_chunks_counterexample:
  "chunk_text_tokenwise char_tokens char_untokens ''ab'' 3 2 = Some (Inr [''ab'', ''b''])"
  by (simp add: chunk_text_tokenwise_def char_tokens_def char_untokens_def chunk_loop.simps
        py_slice_def)

text \<open>
  Claim C7, in the form that holds of the code. For \<open>0 \<le> overlap < max_tokens\<close> and a
  text that encodes to \<open>tokens\<close>, the chunks are the decodings of the token windows \<open>ws\<close> (the windows are
  what the same call returns when decoding is left out). Every window has at most
  \<open>max_tokens\<close> tokens. A window of exactly \<open>max_tokens\<close> tokens that has a successor
  shares exactly \<open>overlap\<close> tokens with it: its last \<open>overlap\<close> tokens are the first
  \<open>overlap\<close> tokens of the successor. When \<open>2 * overlap \<le> max_tokens\<close> this covers
  every pair of consecutive windows other than the pair that ends in the last window.
\<close>

theorem chunk_windows_bounded_and_overlapping:
  assumes "0 \<le> overlap" and "overlap < max_tokens" and "encode s = Inr tokens"
  shows "\<exists>ws. chunk_text_tokenwise encode token_window s max_tokens overlap = Some (Inr ws)
           \<and> chunk_text_tokenwise encode decode s max_tokens overlap = Some (Inr (map decode ws))
           \<and> (\<forall>w\<in>set ws. length w \<le> nat max_tokens)
           \<and> (\<forall>k. Suc k < length ws \<longrightarrow> length (ws ! k) = nat max_tokens \<longrightarrow>
                  trailing (nat overlap) (ws ! k) = leading (nat overlap) (ws ! Suc k) \<and>
                  length (leading (nat overlap) (ws ! Suc k)) = nat overlap)
           \<and> (2 * overlap \<le> max_tokens \<longrightarrow>
                (\<forall>k. Suc (Suc k) < length ws \<longrightarrow>
                  trailing (nat overlap) (ws ! k) = leading (nat overlap) (ws ! Suc k) \<and>
                  length (leading (nat overlap) (ws ! Suc k)) = nat overlap))"
proof (cases "tokens = []")
  case True
  with assms have "chunk_text_tokenwise encode token_window s max_tokens overlap = Some (Inr [])"
    and "chunk_text_tokenwise encode decode s max_tokens overlap = Some (Inr (map decode []))"
    by (simp_all add: chunk_text_tokenwise_def)
  then show ?thesis by (intro exI[of _ "[]"]) simp
next
  case False
  define ws where "ws = map (\<lambda>j. take (nat max_tokens) (drop (nat j) tokens))
                          (win_starts (int (length tokens)) (max_tokens - overlap) 0)"
  have a: "chunk_text_tokenwise encode token_window s max_tokens overlap = Some (Inr ws)"
    using chunk_text_tokenwise_windows[of encode s tokens overlap max_tokens token_window]
      assms False by (simp add: ws_def token_window_def)
  have b: "chunk_text_tokenwise encode decode s max_tokens overlap = Some (Inr (map decode ws))"
    using chunk_text_tokenwise_windows[of encode s tokens overlap max_tokens decode]
      assms False by (simp add: ws_def comp_def)
  note p = windows_props[OF assms(1) assms(2), of tokens, folded ws_def]
  have c: "2 * overlap \<le> max_tokens \<longrightarrow>
                (\<forall>k. Suc (Suc k) < length ws \<longrightarrow>
                  trailing (nat overlap) (ws ! k) = leading (nat overlap) (ws ! Suc k) \<and>
                  length (leading (nat overlap) (ws ! Suc k)) = nat overlap)"
    using p(2) p(3) by (meson Suc_lessD)
  from a b p(1) p(2) c show ?thesis by blast
qed

theorem chunk_windows_bounded_and_overlapping_witness:
  "\<exists>ws. chunk_text_tokenwise char_tokens token_window ''abcdefg'' 4 2 = Some (Inr ws)
           \<and> chunk_text_tokenwise char_tokens char_untokens ''abcdefg'' 4 2 =
                Some (Inr (map char_untokens ws))
           \<and> (\<forall>w\<in>set ws. length w \<le> nat 4)
           \<and> (\<forall>k. Suc k < length ws \<longrightarrow> length (ws ! k) = nat 4 \<longrightarrow>
                  trailing (nat 2) (ws ! k) = leading (nat 2) (ws ! Suc k) \<and>
                  length (leading (nat 2) (ws ! Suc k)) = nat 2)
           \<and> (\<forall>k. Suc (Suc k) < length ws \<longrightarrow>
                  trailing (nat 2) (ws ! k) = leading (nat 2) (ws ! Suc k) \<and>
                  length (leading (nat 2) (ws ! Suc k)) = nat 2)"
proof -
  have h: "(0::int) \<le> 2" "(2::int) < 4" "char_tokens ''abcdefg'' = Inr ''abcdefg''"
    by (simp_all add: char_tokens_def)
  show ?thesis
    using chunk_windows_bounded_and_overlapping
            [of 2 4 char_tokens "''abcdefg''" "''abcdefg''" char_untokens] h
    by simp
qed

text \<open>
  Claim C7 as stated fails when \<open>overlap\<close> is more than half of \<open>max_tokens\<close>: with five
  tokens, \<open>max_tokens = 4\<close> and \<open>overlap = 3\<close> the third and fourth of five windows
  share two tokens, not three, and the fourth window is not the last.
\<close>

theorem overlap_breaks_before_last_chunk_counterexample:
  "chunk_text_tokenwise char_tokens token_window ''abcde'' 4 3 =
     Some (Inr [''abcd'', ''bcde'', ''cde'', ''de'', ''e''])
   \<and> trailing 3 ''cde'' \<noteq> leading 3 ''de''"
  by (simp add: chunk_text_tokenwise_def char_tokens_def token_window_def chunk_loop.simps
        py_slice_def trailing_def leading_def)

section \<open>Claims about ingestion\<close>

text \<open>
  Claim C8. A PDF of two pages, the first with text that is not all whitespace and
  encodes to 1000 tokens, the second empty or all whitespace, ingested with
  \<open>max_tokens = 500\<close> and \<open>overlap = 100\<close>: exactly three chunks are gathered, the
  decodings of the windows that start at tokens 0, 400 and 800, all with page 1 and with
  \<open>chunk_index\<close> 0, 1 and 2; page 2 contributes nothing. The three chunks are what is
  embedded and added to the collection, and the call returns 3 when the embedder and the
  collection accept them.
\<close>

theorem two_page_document_three_chunks:
  assumes "lower (path_suffix path) = ''.pdf''"
    and "pdf_reader env (path_str path) = Inr [PageText t1, page2]"
    and "\<exists>c\<in>set t1. \<not> is_space c"
    and "encode t1 = Inr tokens" and "length tokens = 1000"
    and "\<forall>c\<in>set (page_text page2). is_space c"
  shows "process_single_file env encode decode uuid4 embed_many coll_add path cid lid coll 500 100 =
     Some (case embed_many [decode (take 500 tokens),
                            decode (take 500 (drop 400 tokens)),
                            decode (take 500 (drop 800 tokens))] of
             Inl e \<Rightarrow> Inl e
           | Inr embeddings \<Rightarrow>
               (case coll_add coll [uuid4 0, uuid4 1, uuid4 2]
                       [decode (take 500 tokens),
                        decode (take 500 (drop 400 tokens)),
                        decode (take 500 (drop 800 tokens))]
                       [\<lparr>course_id = cid, lecture_id = lid, source = path_name path,
                          page_or_slide = Some 1, chunk_index = 0\<rparr>,
                        \<lparr>course_id = cid, lecture_id = lid, source = path_name path,
                          page_or_slide = Some 1, chunk_index = 1\<rparr>,
                        \<lparr>course_id = cid, lecture_id = lid, source = path_name path,
                          page_or_slide = Some 1, chunk_index = 2\<rparr>]
                       (Some embeddings) of
                  Inl e \<Rightarrow> Inl e
                | Inr coll' \<Rightarrow> Inr (3, coll')))"
proof -
  from assms(5) have ne: "tokens \<noteq> []" by auto
  have chunks: "chunk_text_tokenwise encode decode t1 500 100 =
      Some (Inr [decode (take 500 tokens), decode (take 500 (drop 400 tokens)),
                 decode (take 500 (drop 800 tokens))])"
    using chunk_text_tokenwise_windows[of encode t1 tokens 100 500 decode] assms(4,5) ne
    by (simp add: win_starts_1000)
  from assms(3) have p1: "t1 \<noteq> [] \<and> length (strip t1) \<noteq> 0"
    using strip_empty_iff[of t1] by auto
  from assms(6) have p2: "page_text page2 = [] \<or> length (strip (page_text page2)) = 0"
    using strip_empty_iff[of "page_text page2"] by simp
  have parts: "extract_text_from_pdf env (path_str path) =
                 Inr [(t1, Some 1), (page_text page2, Some 2)]"
    using assms(2) by (simp add: extract_text_from_pdf_def enumerate_eq_zip)
  have gathered: "gather_parts encode decode uuid4 cid lid (path_name path) 500 100
          [(t1, Some 1), (page_text page2, Some 2)] ([], [], []) =
        Some (Inr ([decode (take 500 tokens), decode (take 500 (drop 400 tokens)),
                    decode (take 500 (drop 800 tokens))],
                   [\<lparr>course_id = cid, lecture_id = lid, source = path_name path,
                          page_or_slide = Some 1, chunk_index = 0\<rparr>,
                        \<lparr>course_id = cid, lecture_id = lid, source = path_name path,
                          page_or_slide = Some 1, chunk_index = 1\<rparr>,
                        \<lparr>course_id = cid, lecture_id = lid, source = path_name path,
                          page_or_slide = Some 1, chunk_index = 2\<rparr>],
                   [uuid4 0, uuid4 1, uuid4 2]))"
    using p1 p2 chunks by (auto simp: enumerate_eq_zip numeral_2_eq_2)
  show ?thesis
    using assms(1) parts gathered
    by (simp add: process_single_file_def insert_chunks_to_collection_def
          del: gather_parts.simps split: sum.split)
qed

theorem two_page_document_three_chunks_witness:
  "process_single_file sample_files char_tokens char_untokens sample_uuid4 sample_embed_many
     sample_coll_add sample_path ''calculus101'' (Some ''lecture_02'') [] 500 100 =
   Some (Inr (3, [''uuid-0'', ''uuid-1'', ''uuid-2'']))"
proof -
  have "lower (path_suffix sample_path) = ''.pdf''"
    by (simp add: sample_path_def lower_PDF)
  moreover have "pdf_reader sample_files (path_str sample_path) =
      Inr [PageText (replicate 1000 (CHR ''a'')), PageText '' '']"
    by (simp add: sample_files_def)
  moreover have "\<exists>c\<in>set (replicate 1000 (CHR ''a'')). \<not> is_space c"
    by (simp add: a_not_space)
  moreover have "char_tokens (replicate 1000 (CHR ''a'')) = Inr (replicate 1000 (CHR ''a''))"
    by (simp add: char_tokens_def)
  moreover have "length (replicate 1000 (CHR ''a'')) = 1000" by simp
  moreover have "\<forall>c\<in>set (page_text (PageText '' '')). is_space c"
    by (simp add: space_is_space)
  ultimately show ?thesis
    using two_page_document_three_chunks
      [of sample_path sample_files "replicate 1000 (CHR ''a'')" "PageText '' ''" char_tokens
          "replicate 1000 (CHR ''a'')" char_untokens sample_uuid4 sample_embed_many
          sample_coll_add "''calculus101''" "Some ''lecture_02''" "[]"]
    by (simp add: sample_embed_many_def sample_coll_add_def sample_ids)
qed

section \<open>Claims about the query engine\<close>

text \<open>
  Claim C5. \<open>_is_low_confidence\<close> returns true exactly when there are no source nodes or
  every node's score is at most 0.7; so confidence is high exactly when some node was
  retrieved and at least one score exceeds 0.7.
\<close>

theorem low_confidence_iff_no_score_above_threshold:
  "(is_low_confidence r \<longleftrightarrow>
      source_nodes r = [] \<or> (\<forall>n\<in>set (source_nodes r). score n \<le> 0.7))
   \<and> (\<not> is_low_confidence r \<longleftrightarrow>
      source_nodes r \<noteq> [] \<and> (\<exists>n\<in>set (source_nodes r). score n > 0.7))"
  by (auto simp: is_low_confidence_def no_score_above_iff not_le)

theorem low_confidence_iff_no_score_above_threshold_witness:
  "\<not> is_low_confidence
        \<lparr>answer = ''A class bundles data and methods.'',
         source_nodes = [\<lparr>node_text = ''slide 3'', score = 0.4\<rparr>,
                         \<lparr>node_text = ''slide 7'', score = 0.85\<rparr>]\<rparr>
   \<and> is_low_confidence
        \<lparr>answer = ''Not in the context.'',
         source_nodes = [\<lparr>node_text = ''slide 3'', score = 0.4\<rparr>,
                         \<lparr>node_text = ''slide 9'', score = 0.7\<rparr>]\<rparr>
   \<and> is_low_confidence \<lparr>answer = ''Not in the context.'', source_nodes = []\<rparr>"
  using low_confidence_iff_no_score_above_threshold
          [of "\<lparr>answer = ''A class bundles data and methods.'',
         source_nodes = [\<lparr>node_text = ''slide 3'', score = 0.4\<rparr>,
                         \<lparr>node_text = ''slide 7'', score = 0.85\<rparr>]\<rparr>"]
        low_confidence_iff_no_score_above_threshold
          [of "\<lparr>answer = ''Not in the context.'',
         source_nodes = [\<lparr>node_text = ''slide 3'', score = 0.4\<rparr>,
                         \<lparr>node_text = ''slide 9'', score = 0.7\<rparr>]\<rparr>"]
        low_confidence_iff_no_score_above_threshold
          [of "\<lparr>answer = ''Not in the context.'', source_nodes = []\<rparr>"]
  by simp

text \<open>
  Claim C9. \<open>rewrite_query\<close> never raises. When the model returns a response with text,
  the result is that text with surrounding whitespace stripped; when the model call
  raises, or the response is one on which \<open>.text.strip()\<close> raises, the result is the
  original query unchanged.
\<close>

theorem rewrite_query_falls_back:
  "(\<exists>q. rewrite_query llm original_query = Inr q)
   \<and> (\<forall>r t. llm (rewrite_prompt original_query) = Inr r \<and> response_text r = Some t \<longrightarrow>
         rewrite_query llm original_query = Inr (strip t))
   \<and> (\<forall>e. llm (rewrite_prompt original_query) = Inl e \<longrightarrow>
         rewrite_query llm original_query = Inr original_query)
   \<and> (\<forall>r. llm (rewrite_prompt original_query) = Inr r \<and> response_text r = None \<longrightarrow>
         rewrite_query llm original_query = Inr original_query)"
  by (auto simp: rewrite_query_def rewrite_try_def split: sum.splits option.splits)

theorem rewrite_query_falls_back_witness:
  "rewrite_query rewording_llm ''what is polymorphism'' =
     Inr ''Define polymorphism in object-oriented programming.''
   \<and> rewrite_query failing_llm ''what is polymorphism'' = Inr ''what is polymorphism''
   \<and> rewrite_query textless_llm ''what is polymorphism'' = Inr ''what is polymorphism''"
  using rewrite_query_falls_back[of rewording_llm "''what is polymorphism''"]
        rewrite_query_falls_back[of failing_llm "''what is polymorphism''"]
        rewrite_query_falls_back[of textless_llm "''what is polymorphism''"]
  by (simp add: rewording_llm_def failing_llm_def textless_llm_def strip_rewording)

text \<open>
  Claim C10. With \<open>YOUTUBE_API_KEY\<close> unset, constructing a \<open>YouTubeSearcher\<close> raises
  \<open>ValueError\<close>, and constructing an \<open>EnhancedQueryEngine\<close> fails: with that
  \<open>ValueError\<close> when the vector store, the index and the Groq model are there, with an
  earlier exception otherwise.
\<close>

theorem engine_needs_youtube_key:
  assumes "getenv w ''YOUTUBE_API_KEY'' = None"
  shows "YouTubeSearcher_init (getenv w) (youtube_build w) =
           Inl (ValueError ''YouTube API key not found in environment variables'')
       \<and> (\<exists>e. EnhancedQueryEngine_init w = Inl e)
       \<and> (persist_dir_exists w \<and> (\<exists>index. open_index w = Inr index)
            \<and> (\<exists>model. groq w ''llama-3.3-70b-versatile'' (getenv w ''GROQ_API_KEY'') = Inr model)
          \<longrightarrow> EnhancedQueryEngine_init w =
                Inl (ValueError ''YouTube API key not found in environment variables''))"
  using assms
  by (auto simp: YouTubeSearcher_init_def EnhancedQueryEngine_init_def split: sum.splits)

theorem engine_needs_youtube_key_witness:
  "EnhancedQueryEngine_init keyless_world =
     Inl (ValueError ''YouTube API key not found in environment variables'')"
proof -
  have "getenv keyless_world ''YOUTUBE_API_KEY'' = None"
    by (simp add: keyless_world_def)
  from engine_needs_youtube_key[OF this] show ?thesis
    by (simp add: keyless_world_def)
qed

text \<open>
  Claim C6. When the retrieval engine answers the rewritten query, \<open>query\<close> returns its
  answer and source nodes, and sends a request to the video search exactly when
  \<open>get_videos\<close> is true or confidence is low: one request, made by
  \<open>search_educational_videos\<close> from the original question (not the rewritten one) with
  at most 5 results, whose videos are attached. Otherwise nothing is sent and the list of
  videos is empty.
\<close>

theorem enrichment_gate:
  assumes "rewrite_query (engine_llm self) question = Inr rewritten"
    and "query_engine self rewritten = Inr r"
  shows "\<exists>found.
           query self question get_videos sent =
             (Inr \<lparr>result_answer = answer r, result_source_nodes = source_nodes r,
                   videos = found\<rparr>,
              if get_videos \<or> is_low_confidence r
              then sent @ [(question @ '' tutorial education'', 5)] else sent)
         \<and> (get_videos \<or> is_low_confidence r \<longrightarrow>
              fst (search_educational_videos (youtube_searcher self) question 5 sent) = Inr found)
         \<and> (\<not> get_videos \<and> \<not> is_low_confidence r \<longrightarrow> found = [])"
  using assms
  by (auto simp: query_def search_educational_videos_def Let_def split: sum.splits)

theorem enrichment_gate_witness:
  "query (sample_engine 0.85) ''what is polymorphism'' False [] =
     (Inr \<lparr>result_answer = ''Polymorphism lets one interface serve many types.'',
           result_source_nodes = [\<lparr>node_text = ''slide 4'', score = 0.85\<rparr>,
                                  \<lparr>node_text = ''slide 9'', score = 0.3\<rparr>],
           videos = []\<rparr>, [])
   \<and> snd (query (sample_engine 0.4) ''what is polymorphism'' False []) =
        [(''what is polymorphism tutorial education'', 5)]
   \<and> snd (query (sample_engine 0.85) ''what is polymorphism'' True []) =
        [(''what is polymorphism tutorial education'', 5)]"
proof -
  have rw: "\<And>b. rewrite_query (engine_llm (sample_engine b)) ''what is polymorphism'' =
              Inr ''Define polymorphism in object-oriented programming.''"
    by (simp add: sample_engine_def rewrite_query_def rewrite_try_def rewording_llm_def
          strip_rewording)
  have qe: "\<And>b. query_engine (sample_engine b)
                  ''Define polymorphism in object-oriented programming.'' =
               Inr \<lparr>answer = ''Polymorphism lets one interface serve many types.'',
                    source_nodes = [\<lparr>node_text = ''slide 4'', score = b\<rparr>,
                                    \<lparr>node_text = ''slide 9'', score = 0.3\<rparr>]\<rparr>"
    by (simp add: sample_engine_def)
  show ?thesis
    using enrichment_gate[OF rw[of "0.85"] qe[of "0.85"], of False "[]"]
          enrichment_gate[OF rw[of "0.4"] qe[of "0.4"], of False "[]"]
          enrichment_gate[OF rw[of "0.85"] qe[of "0.85"], of True "[]"]
    by (auto simp: is_low_confidence_def)
qed

section \<open>Claims about the quiz generator\<close>

text \<open>
  Claim C2, in the form that holds of the code. \<open>generate_quiz\<close> never raises. A
  model error, a response without text and a response that is not JSON each give \<open>None\<close>
  and leave the table of quizzes as it was. Whatever value the response parses to is saved as one new row under the
  topic and returned: the code checks neither title nor questions, options or
  answer index. This holds for both copies of the module, which differ in the prompt.
\<close>

theorem generate_quiz_returns_parsed_response:
  "(\<exists>res. fst (generate_quiz llm json_loads prompt_of topic context n db) = Inr res)
   \<and> (\<forall>e. llm (prompt_of topic context n) = Inl e \<longrightarrow>
         generate_quiz llm json_loads prompt_of topic context n db = (Inr None, db))
   \<and> (\<forall>r. llm (prompt_of topic context n) = Inr r \<and> response_text r = None \<longrightarrow>
         generate_quiz llm json_loads prompt_of topic context n db = (Inr None, db))
   \<and> (\<forall>r t e. llm (prompt_of topic context n) = Inr r \<and> response_text r = Some t
              \<and> json_loads t = Inl e \<longrightarrow>
         generate_quiz llm json_loads prompt_of topic context n db = (Inr None, db))
   \<and> (\<forall>r t quiz. llm (prompt_of topic context n) = Inr r \<and> response_text r = Some t
              \<and> json_loads t = Inr quiz \<longrightarrow>
         generate_quiz llm json_loads prompt_of topic context n db =
           (Inr (Some quiz), db @ [\<lparr>row_id = Suc (length db), row_topic = topic,
                                     row_questions = quiz\<rparr>]))"
  by (auto simp: generate_quiz_def quiz_try_def save_quiz_def split: sum.splits option.splits)

theorem generate_quiz_returns_parsed_response_witness:
  "generate_quiz failing_llm sample_json_loads quiz_prompt_src ''loops'' ''A loop repeats.'' 1 [] =
     (Inr None, [])
   \<and> generate_quiz textless_llm sample_json_loads quiz_prompt_src ''loops'' ''A loop repeats.'' 1 [] =
     (Inr None, [])
   \<and> generate_quiz rewording_llm sample_json_loads quiz_prompt_src ''loops'' ''A loop repeats.'' 1 [] =
     (Inr None, [])
   \<and> generate_quiz well_formed_llm sample_json_loads quiz_prompt_src ''loops'' ''A loop repeats.'' 1 [] =
     (Inr (Some well_formed_quiz),
      [\<lparr>row_id = 1, row_topic = ''loops'', row_questions = well_formed_quiz\<rparr>])"
  using generate_quiz_returns_parsed_response
          [of failing_llm sample_json_loads quiz_prompt_src "''loops''" "''A loop repeats.''" 1
              "[]"]
        generate_quiz_returns_parsed_response
          [of textless_llm sample_json_loads quiz_prompt_src "''loops''" "''A loop repeats.''" 1
              "[]"]
        generate_quiz_returns_parsed_response
          [of rewording_llm sample_json_loads quiz_prompt_src "''loops''" "''A loop repeats.''" 1
              "[]"]
        generate_quiz_returns_parsed_response
          [of well_formed_llm sample_json_loads quiz_prompt_src "''loops''" "''A loop repeats.''" 1
              "[]"]
  by (simp add: failing_llm_def textless_llm_def rewording_llm_def well_formed_llm_def
        sample_json_loads_def)

text \<open>
  Claim C2 as stated fails: a response whose question has \<open>correct_answer = 5\<close> for four
  options is returned as the quiz and saved.
\<close>

theorem unvalidated_quiz_is_saved_counterexample:
  "generate_quiz out_of_range_llm sample_json_loads quiz_prompt_backend
       ''loops'' ''A loop repeats.'' 1 [] =
     (Inr (Some out_of_range_quiz),
      [\<lparr>row_id = 1, row_topic = ''loops'', row_questions = out_of_range_quiz\<rparr>])
   \<and> \<not> valid_quiz out_of_range_quiz"
  by (simp add: generate_quiz_def quiz_try_def save_quiz_def out_of_range_llm_def
        sample_json_loads_def valid_quiz_def valid_question_def out_of_range_quiz_def)

section \<open>Further properties\<close>

text \<open>
  With \<open>overlap < max_tokens\<close> the chunker always returns: the encoder's exception, or
  the list of chunks.
\<close>

theorem chunking_returns:
  assumes "overlap < max_tokens"
  shows "\<exists>r. chunk_text_tokenwise encode decode s max_tokens overlap = Some r"
proof (cases "encode s")
  case (Inl e)
  then show ?thesis by (simp add: chunk_text_tokenwise_def)
next
  case (Inr tokens)
  show ?thesis
  proof (cases "tokens = []")
    case True
    with Inr show ?thesis by (simp add: chunk_text_tokenwise_def)
  next
    case False
    with Inr assms show ?thesis
      using chunk_text_tokenwise_runs[of encode s tokens overlap max_tokens decode] by simp
  qed
qed

theorem chunking_returns_witness:
  "\<exists>r. chunk_text_tokenwise char_tokens char_untokens ''hello'' 2 (- 1) = Some r"
proof -
  have "(- 1::int) < 2" by simp
  from chunking_returns[OF this] show ?thesis .
qed

text \<open>
  \<open>search_educational_videos\<close> never raises: when the request to YouTube fails, or an
  item lacks a field, the result is the empty list.
\<close>

theorem search_swallows_failures:
  "(\<exists>found. fst (search_educational_videos self question n sent) = Inr found)
   \<and> (\<forall>e. youtube self (question @ '' tutorial education'') n = Inl e \<longrightarrow>
         fst (search_educational_videos self question n sent) = Inr [])
   \<and> (\<forall>items e. youtube self (question @ '' tutorial education'') n = Inr items
              \<and> videos_of_items items [] = Inl e \<longrightarrow>
         fst (search_educational_videos self question n sent) = Inr [])"
  by (auto simp: search_educational_videos_def search_try_def split: sum.splits)

theorem search_swallows_failures_witness:
  "fst (search_educational_videos
          \<lparr>api_key = ''key'', youtube = (\<lambda>q n. Inl (LibraryError ''quota exceeded''))\<rparr>
          ''what is polymorphism'' 5 []) = Inr []
   \<and> fst (search_educational_videos
          \<lparr>api_key = ''key'',
           youtube = (\<lambda>q n. Inr [\<lparr>item_video_id = Some ''abc123'', item_title = None,
                                   item_channel_title = None, item_description = None,
                                   item_thumbnail_url = None\<rparr>])\<rparr>
          ''what is polymorphism'' 5 []) = Inr []"
  using search_swallows_failures
          [of "\<lparr>api_key = ''key'', youtube = (\<lambda>q n. Inl (LibraryError ''quota exceeded''))\<rparr>"
              "''what is polymorphism''" 5 "[]"]
        search_swallows_failures
          [of "\<lparr>api_key = ''key'',
           youtube = (\<lambda>q n. Inr [\<lparr>item_video_id = Some ''abc123'', item_title = None,
                                   item_channel_title = None, item_description = None,
                                   item_thumbnail_url = None\<rparr>])\<rparr>"
              "''what is polymorphism''" 5 "[]"]
  by (simp add: video_of_item_def)

end
